theory Spec2Isabelle
  imports Complex_Main
begin

section \<open>Common Python notions\<close>

text \<open>
  The connectors read JSON payloads with dictionary access and raise Python exceptions.
  Scalars of a payload are modelled by \<open>pyval\<close>, exceptions by \<open>exn\<close>. A generator is
  modelled by what a consumer that exhausts it observes: the records yielded, in order,
  and the exception that ended it, if one did.
\<close>

datatype pyval = PNone | PBool bool | PInt int | PStr string

datatype exn =
    KeyError string
  | HTTPError int
  | JSONDecodeError
  | APIError string
  | ConnectionError string
  | TaskwarriorError string

record 'a generated =
  yielded :: "'a list"
  raised :: "exn option"

text \<open>The fields of \<open>config.ServiceConfig\<close> that the three connectors read.\<close>

record service_config =
  default_priority :: string
  only_if_assigned :: bool
  target :: string

subsection \<open>Strings\<close>

text \<open>
  \<open>str.lstrip(chars)\<close> removes the longest prefix made of characters that occur in
  \<open>chars\<close>; \<open>chars\<close> is a set of characters, not a prefix. \<open>str.strip()\<close> and
  \<open>str.rstrip()\<close> remove whitespace; on the one-byte characters modelled here Python's
  whitespace is TAB, LF, VT, FF, CR, the separators 0x1C to 0x1F, and the space.
\<close>

definition lstrip_chars :: "string \<Rightarrow> string \<Rightarrow> string" where
  "lstrip_chars chars s = dropWhile (\<lambda>c. c \<in> set chars) s"

definition isspace :: "char \<Rightarrow> bool" where
  "isspace c \<longleftrightarrow> c \<in> set [CHR 0x09, CHR 0x0A, CHR 0x0B, CHR 0x0C, CHR 0x0D,
                          CHR 0x1C, CHR 0x1D, CHR 0x1E, CHR 0x1F, CHR '' '']"

definition lstrip :: "string \<Rightarrow> string" where
  "lstrip s = dropWhile isspace s"

definition rstrip :: "string \<Rightarrow> string" where
  "rstrip s = rev (dropWhile isspace (rev s))"

definition strip :: "string \<Rightarrow> string" where
  "strip s = rstrip (lstrip s)"

definition replace_char :: "char \<Rightarrow> char \<Rightarrow> string \<Rightarrow> string" where
  "replace_char old new s = map (\<lambda>c. if c = old then new else c) s"

text \<open>\<open>str(n)\<close> and \<open>'%i' % n\<close> of a Python integer: its decimal numeral.\<close>

definition digit_char :: "nat \<Rightarrow> char" where
  "digit_char d = ''0123456789'' ! d"

fun str_nat :: "nat \<Rightarrow> string" where
  "str_nat n = (if n < 10 then [digit_char n] else str_nat (n div 10) @ [digit_char (n mod 10)])"

declare str_nat.simps [simp del]

definition str_int :: "int \<Rightarrow> string" where
  "str_int i = (if i < 0 then CHR ''-'' # str_nat (nat (- i)) else str_nat (nat i))"

section \<open>Gerrit connector (\<open>services/gerrit.py\<close>)\<close>

record gerrit_config = service_config +
  base_uri :: string
  query :: string

text \<open>
  One entry of \<open>change['messages']\<close>. The author object is kept as a dictionary, since
  the code probes it for keys.
\<close>

record gerrit_message =
  author :: "string \<rightharpoonup> pyval"
  message :: string
  revision_number :: int

record change =
  change_project :: string
  change_number :: int
  subject :: string
  branch :: string
  topic :: "string option"
  status :: "string option"
  work_in_progress :: "bool option"
  messages :: "gerrit_message list"

record 'a gerrit_extra =
  extra_url :: string
  extra_annotations :: 'a

record 'a gerrit_taskwarrior =
  gerrit_project :: string
  gerrit_annotations :: 'a
  gerriturl :: string
  gerrit_priority :: string
  gerrit_tags :: "string list"
  gerritid :: int
  gerritsummary :: string
  gerritbranch :: string
  gerrittopic :: string
  gerritstatus :: string
  gerritwip :: int

text \<open>\<open>GerritIssue.to_taskwarrior\<close>; \<open>int(True)\<close> is 1 and \<open>int(False)\<close> is 0.\<close>

definition gerrit_to_taskwarrior ::
  "gerrit_config \<Rightarrow> change \<Rightarrow> 'a gerrit_extra \<Rightarrow> 'a gerrit_taskwarrior" where
  "gerrit_to_taskwarrior cfg record extra =
     \<lparr> gerrit_project = change_project record,
       gerrit_annotations = extra_annotations extra,
       gerriturl = extra_url extra,
       gerrit_priority = default_priority cfg,
       gerrit_tags = [],
       gerritid = change_number record,
       gerritsummary = subject record,
       gerritbranch = branch record,
       gerrittopic = (case topic record of None \<Rightarrow> ''notopic'' | Some t \<Rightarrow> t),
       gerritstatus = (case status record of None \<Rightarrow> [] | Some s \<Rightarrow> s),
       gerritwip = (case work_in_progress record of None \<Rightarrow> 0
                    | Some b \<Rightarrow> (if b then 1 else 0)) \<rparr>"


text \<open>
  The \<open>for key in ['name', 'username', 'email']\<close> loop of \<open>annotations\<close> with its
  \<open>else\<close> clause, which runs when no key was found and reads \<open>'_account_id'\<close>.
\<close>

fun find_username :: "string list \<Rightarrow> (string \<rightharpoonup> pyval) \<Rightarrow> exn + pyval" where
  "find_username [] a =
     (case a ''_account_id'' of None \<Rightarrow> Inl (KeyError ''_account_id'') | Some v \<Rightarrow> Inr v)"
| "find_username (key # keys) a =
     (case a key of Some v \<Rightarrow> Inr v | None \<Rightarrow> find_username keys a)"

definition username_of :: "gerrit_message \<Rightarrow> exn + pyval" where
  "username_of item = find_username [''name'', ''username'', ''email''] (author item)"

text \<open>
  The message text of an annotation:
  \<open>item['message'].lstrip('Patch Set ').lstrip("%s:" % item['_revision_number']).strip().replace('\n', ' ')\<close>.
\<close>

definition message_of :: "gerrit_message \<Rightarrow> string" where
  "message_of item =
     replace_char (CHR 0x0A) (CHR '' '')
       (strip (lstrip_chars (str_int (revision_number item) @ '':'')
                 (lstrip_chars ''Patch Set '' (message item))))"

text \<open>The loop of \<open>annotations\<close> that collects \<open>entries\<close>; a missing key ends it.\<close>

fun entries_of :: "gerrit_message list \<Rightarrow> exn + (pyval \<times> string) list" where
  "entries_of [] = Inr []"
| "entries_of (item # items) =
     (case username_of item of
        Inl e \<Rightarrow> Inl e
      | Inr username \<Rightarrow>
          (case entries_of items of
             Inl e \<Rightarrow> Inl e
           | Inr entries \<Rightarrow> Inr ((username, message_of item) # entries)))"







section \<open>Phabricator connector (\<open>services/phab.py\<close>)\<close>

record phab_config = service_config +
  user_phids :: "string list"
  project_phids :: "string list"
  host :: "string option"
  config_ignore_cc :: "bool option"
  config_ignore_author :: "bool option"
  ignore_owner :: bool
  ignore_reviewers :: bool

text \<open>
  \<open>self.ignore_cc\<close> and \<open>self.ignore_author\<close>, set by \<open>PhabricatorService.__init__\<close>: the
  configured value, or \<open>only_if_assigned\<close> when none is configured.
\<close>

definition ignore_cc :: "phab_config \<Rightarrow> bool" where
  "ignore_cc cfg = (case config_ignore_cc cfg of Some b \<Rightarrow> b | None \<Rightarrow> only_if_assigned cfg)"

definition ignore_author :: "phab_config \<Rightarrow> bool" where
  "ignore_author cfg =
     (case config_ignore_author cfg of Some b \<Rightarrow> b | None \<Rightarrow> only_if_assigned cfg)"

text \<open>
  A Maniphest task and a Differential revision, with the fields the connector reads. An
  unassigned task has \<open>ownerPHID\<close> null and a revision outside a repository has
  \<open>repositoryPHID\<close> null, so these two are optional; the key \<open>phabricator:projects\<close> may
  be missing from a revision.
\<close>

record task =
  task_uri :: string
  task_title :: string
  task_priority :: "string option"
  ccPHIDs :: "string list"
  ownerPHID :: "string option"
  task_authorPHID :: string
  projectPHIDs :: "string list"

record diff =
  diff_uri :: string
  diff_title :: string
  diff_priority :: "string option"
  reviewers :: "string list"
  ccs :: "string list"
  diff_authorPHID :: string
  phabricator_projects :: "string list option"
  repositoryPHID :: "string option"

datatype phab_record = Task task | Diff diff

record phab_extra =
  extra_project :: string
  extra_type :: string

subsection \<open>Priority\<close>

definition PHAB_PRIORITY_MAP :: "(string \<times> string option) list" where
  "PHAB_PRIORITY_MAP =
     [(''Needs Triage'', None),
      (''Unbreak Now!'', Some ''H''),
      (''High'', Some ''H''),
      (''Normal'', Some ''M''),
      (''Low'', Some ''L''),
      (''Wishlist'', Some ''L'')]"

definition record_get_priority :: "phab_record \<Rightarrow> string option" where
  "record_get_priority r = (case r of Task t \<Rightarrow> task_priority t | Diff d \<Rightarrow> diff_priority d)"

text \<open>
  \<open>PRIORITY_MAP.get(k)\<close> is \<open>None\<close> for a key that is not in the table, and for the key
  \<open>None\<close>; \<open>x or y\<close> is \<open>y\<close> when \<open>x\<close> is \<open>None\<close> or the empty string.
\<close>

definition phab_map_get :: "string option \<Rightarrow> string option" where
  "phab_map_get k =
     (case k of
        None \<Rightarrow> None
      | Some key \<Rightarrow> (case map_of PHAB_PRIORITY_MAP key of None \<Rightarrow> None | Some v \<Rightarrow> v))"

definition py_or :: "string option \<Rightarrow> string \<Rightarrow> string" where
  "py_or x y = (case x of None \<Rightarrow> y | Some s \<Rightarrow> (if s = [] then y else s))"

definition phab_priority :: "phab_config \<Rightarrow> phab_record \<Rightarrow> string" where
  "phab_priority cfg r = py_or (phab_map_get (record_get_priority r)) (default_priority cfg)"

subsection \<open>The queries of \<open>tasks\<close>\<close>

text \<open>
  The keyword arguments of one \<open>maniphest.query\<close> call. The remote API is a function
  from the arguments to its answer, a dictionary from PHID to task in the order of its
  items, or an exception. Each call is recorded, in order.
\<close>

datatype maniphest_args =
    Status string
  | StatusOwnerPHIDs string "string list"
  | StatusCcPHIDs string "string list"
  | StatusAuthorPHIDs string "string list"
  | StatusProjectPHIDs string "string list"

type_synonym maniphest_api = "maniphest_args \<Rightarrow> exn + (string \<times> task) list"

text \<open>
  The list comprehension under \<open># Delete duplicates\<close>: an item is kept when the string
  of its task is not in \<open>seen\<close>, and then added to \<open>seen\<close>. Tasks are compared here in
  place of their strings.
\<close>

fun delete_duplicates :: "task set \<Rightarrow> (string \<times> task) list \<Rightarrow> (string \<times> task) list" where
  "delete_duplicates seen [] = []"
| "delete_duplicates seen (item # items) =
     (if snd item \<notin> seen then item # delete_duplicates (insert (snd item) seen) items
      else delete_duplicates seen items)"

definition user_queries ::
  "maniphest_api \<Rightarrow> string list \<Rightarrow> (exn + (string \<times> task) list) \<times> maniphest_args list" where
  "user_queries query_api U =
     (let by_owner = StatusOwnerPHIDs ''status-open'' U;
          by_cc = StatusCcPHIDs ''status-open'' U;
          by_author = StatusAuthorPHIDs ''status-open'' U
      in case query_api by_owner of
           Inl e \<Rightarrow> (Inl e, [by_owner])
         | Inr tasks_owner \<Rightarrow>
             (case query_api by_cc of
                Inl e \<Rightarrow> (Inl e, [by_owner, by_cc])
              | Inr tasks_cc \<Rightarrow>
                  (case query_api by_author of
                     Inl e \<Rightarrow> (Inl e, [by_owner, by_cc, by_author])
                   | Inr tasks_author \<Rightarrow>
                       (Inr (delete_duplicates {} (tasks_owner @ tasks_cc @ tasks_author)),
                        [by_owner, by_cc, by_author]))))"

text \<open>
  The body of the \<open>try\<close> statement of \<open>tasks\<close>: the fetched items or the exception, and
  the calls made. When \<open>user_phids\<close> is empty the variable \<open>tasks\<close> is unbound before the
  project query, which then binds it; the empty list stands for unbound.
\<close>

definition fetch_tasks ::
  "maniphest_api \<Rightarrow> phab_config \<Rightarrow> (exn + (string \<times> task) list) \<times> maniphest_args list" where
  "fetch_tasks query_api cfg =
     (if user_phids cfg \<noteq> [] \<or> project_phids cfg \<noteq> [] then
        (case (if user_phids cfg \<noteq> [] then user_queries query_api (user_phids cfg)
               else (Inr [], [])) of
           (Inl e, calls) \<Rightarrow> (Inl e, calls)
         | (Inr tasks_user, calls) \<Rightarrow>
             (if project_phids cfg \<noteq> [] then
                (let by_project = StatusProjectPHIDs ''status-open'' (project_phids cfg)
                 in case query_api by_project of
                      Inl e \<Rightarrow> (Inl e, calls @ [by_project])
                    | Inr tasks_project \<Rightarrow> (Inr tasks_project, calls @ [by_project]))
              else (Inr tasks_user, calls)))
      else
        (case query_api (Status ''status-open'') of
           Inl e \<Rightarrow> (Inl e, [Status ''status-open''])
         | Inr tasks_all \<Rightarrow> (Inr tasks_all, [Status ''status-open''])))"

subsection \<open>Membership filtering\<close>

text \<open>
  The sets hold Python values: PHID strings and, for an unassigned task or a revision
  outside a repository, \<open>None\<close>. The configured lists hold strings.
\<close>

definition task_relevant_to :: "phab_config \<Rightarrow> task \<Rightarrow> string option set" where
  "task_relevant_to cfg t =
     (if \<not> ignore_cc cfg then Some ` set (ccPHIDs t) else {})
     \<union> (if \<not> ignore_owner cfg then {ownerPHID t} else {})
     \<union> (if \<not> ignore_author cfg then {Some (task_authorPHID t)} else {})"

definition this_task_matches :: "phab_config \<Rightarrow> task \<Rightarrow> bool" where
  "this_task_matches cfg t =
     (let m0 = False;
          m1 = (if user_phids cfg = [] \<and> project_phids cfg = [] then True else m0);
          m2 = (if user_phids cfg \<noteq> [] then
                  (if task_relevant_to cfg t \<inter> Some ` set (user_phids cfg) \<noteq> {} then True
                   else m1)
                else m1);
          m3 = (if project_phids cfg \<noteq> [] then
                  (if Some ` set (projectPHIDs t) \<inter> Some ` set (project_phids cfg) \<noteq> {}
                   then True else m2)
                else m2)
      in m3)"

definition diff_relevant_to :: "phab_config \<Rightarrow> diff \<Rightarrow> string option set" where
  "diff_relevant_to cfg d =
     (if \<not> ignore_reviewers cfg then Some ` set (reviewers d) else {})
     \<union> (if \<not> ignore_cc cfg then Some ` set (ccs d) else {})
     \<union> (if \<not> ignore_author cfg then {Some (diff_authorPHID d)} else {})"

definition diff_projects :: "diff \<Rightarrow> string option set" where
  "diff_projects d =
     (let phabricator_projects =
            (case phabricator_projects d of None \<Rightarrow> [] | Some ps \<Rightarrow> ps)
      in set (map Some phabricator_projects @ [repositoryPHID d]))"

definition this_diff_matches :: "phab_config \<Rightarrow> diff \<Rightarrow> bool" where
  "this_diff_matches cfg d =
     (let m0 = False;
          m1 = (if user_phids cfg = [] \<and> project_phids cfg = [] then True else m0);
          m2 = (if user_phids cfg \<noteq> [] then
                  (if diff_relevant_to cfg d \<inter> Some ` set (user_phids cfg) \<noteq> {} then True
                   else m1)
                else m1);
          m3 = (if project_phids cfg \<noteq> [] then
                  (if diff_projects d \<inter> Some ` set (project_phids cfg) \<noteq> {} then True
                   else m2)
                else m2)
      in m3)"

subsection \<open>The generators\<close>

text \<open>
  \<open>get_issue_for_record(record, extra)\<close> of the base class wraps the record and the extra
  data in an issue; the pair stands for the issue.
\<close>

fun tasks_loop :: "phab_config \<Rightarrow> (string \<times> task) list \<Rightarrow> (phab_record \<times> phab_extra) list" where
  "tasks_loop cfg [] = []"
| "tasks_loop cfg ((phid, t) # rest) =
     (if \<not> this_task_matches cfg t then tasks_loop cfg rest
      else (Task t, \<lparr> extra_project = target cfg, extra_type = ''issue'' \<rparr>)
             # tasks_loop cfg rest)"

fun revisions_loop :: "phab_config \<Rightarrow> diff list \<Rightarrow> (phab_record \<times> phab_extra) list" where
  "revisions_loop cfg [] = []"
| "revisions_loop cfg (d # rest) =
     (if \<not> this_diff_matches cfg d then revisions_loop cfg rest
      else (Diff d, \<lparr> extra_project = target cfg, extra_type = ''pull_request'' \<rparr>)
             # revisions_loop cfg rest)"

datatype log_entry = Warn string | Info string | Debug string

record 'a logged = "'a generated" +
  log :: "log_entry list"

text \<open>
  \<open>PhabricatorService.tasks\<close>: \<open>except phabricator.APIError\<close> logs a warning and returns,
  which ends the generator; any other exception leaves the generator.
\<close>

definition tasks ::
  "maniphest_api \<Rightarrow> phab_config \<Rightarrow> (phab_record \<times> phab_extra) logged" where
  "tasks query_api cfg =
     (case fst (fetch_tasks query_api cfg) of
        Inl e \<Rightarrow>
          (case e of
             APIError err \<Rightarrow>
               \<lparr> yielded = [], raised = None,
                 log = [Warn (''Could not read tasks from Maniphest: '' @ err)] \<rparr>
           | _ \<Rightarrow> \<lparr> yielded = [], raised = Some e, log = [] \<rparr>)
      | Inr ts \<Rightarrow>
          \<lparr> yielded = tasks_loop cfg ts, raised = None,
            log = [Info (''Found '' @ str_int (int (length ts)) @ '' tasks'')] \<rparr>)"

text \<open>
  \<open>PhabricatorService.revisions\<close>; \<open>differential_query\<close> is the answer of
  \<open>differential.query(status='status-open')\<close>.
\<close>

definition revisions ::
  "(string \<Rightarrow> exn + diff list) \<Rightarrow> phab_config \<Rightarrow> (phab_record \<times> phab_extra) logged" where
  "revisions differential_query cfg =
     (case differential_query ''status-open'' of
        Inl e \<Rightarrow>
          (case e of
             APIError err \<Rightarrow>
               \<lparr> yielded = [], raised = None,
                 log = [Warn (''Could not read revisions from Differential: '' @ err)] \<rparr>
           | _ \<Rightarrow> \<lparr> yielded = [], raised = Some e, log = [] \<rparr>)
      | Inr diff_list \<Rightarrow>
          \<lparr> yielded = revisions_loop cfg diff_list, raised = None,
            log = [Info (''Found '' @ str_int (int (length diff_list)) @ '' differentials'')] \<rparr>)"


section \<open>Redmine connector (\<open>services/redmine.py\<close>)\<close>

record redmine_config = service_config +
  project_name :: string
  url :: string

text \<open>
  A Redmine issue. The nested objects \<open>tracker\<close>, \<open>status\<close>, \<open>author\<close> and \<open>project\<close>
  are read only through their \<open>name\<close>, which is what the record keeps; \<open>category\<close> and
  \<open>assigned_to\<close> are the name of the object when the key is present. The \<open>priority\<close>
  object is read with \<open>get\<close>, and so is its \<open>name\<close>. The hours are JSON numbers, Python
  floats, taken as reals.
\<close>

record redmine_priority =
  priority_name :: "string option"

record redmine_issue =
  issue_id :: int
  issue_subject :: string
  description :: "string option"
  tracker_name :: string
  status_name :: string
  author_name :: string
  issue_project_name :: string
  issue_priority :: "redmine_priority option"
  due_date :: "string option"
  start_date :: "string option"
  updated_on :: "string option"
  created_on :: "string option"
  spent_hours :: "real option"
  estimated_hours :: "real option"
  category :: "string option"
  assigned_to :: "string option"

text \<open>
  A local variable of \<open>to_taskwarrior\<close> such as \<open>due_date\<close> or \<open>spent_hours\<close> is
  \<open>None\<close>, the value read from the record, or the converted value.
\<close>

datatype ('r, 'c) coerced = Null | Raw 'r | Conv 'c

record 'd redmine_taskwarrior =
  redmine_project :: string
  redmine_annotations :: "string list"
  redmine_priority :: string
  redmineurl :: string
  redminesubject :: string
  redmineid :: int
  redminedescription :: string
  redminetracker :: string
  redminestatus :: string
  redmineauthor :: string
  redmineprojectname :: string
  redmineassignedto :: "string option"
  redminecategory :: "string option"
  redminestartdate :: "(string, 'd) coerced"
  redminecreatedon :: "(string, 'd) coerced"
  redmineupdatedon :: "(string, 'd) coerced"
  redmineduedate :: "(string, 'd) coerced"
  redmineestimatedhours :: "(real, string) coerced"
  redminespenthours :: "(real, string) coerced"

definition REDMINE_PRIORITY_MAP :: "(string \<times> string) list" where
  "REDMINE_PRIORITY_MAP =
     [(''Low'', ''L''),
      (''Normal'', ''M''),
      (''High'', ''H''),
      (''Urgent'', ''H''),
      (''Immediate'', ''H'')]"

text \<open>
  \<open>get_priority\<close>: \<open>PRIORITY_MAP.get(record.get('priority', {}).get('name'), default_priority)\<close>;
  a missing priority and a missing name both look \<open>None\<close> up, which is not a key.
\<close>

definition get_priority :: "redmine_config \<Rightarrow> redmine_issue \<Rightarrow> string" where
  "get_priority cfg r =
     (case (case issue_priority r of None \<Rightarrow> None | Some p \<Rightarrow> priority_name p) of
        None \<Rightarrow> default_priority cfg
      | Some n \<Rightarrow>
          (case map_of REDMINE_PRIORITY_MAP n of None \<Rightarrow> default_priority cfg | Some v \<Rightarrow> v))"

definition get_issue_url :: "redmine_config \<Rightarrow> redmine_issue \<Rightarrow> string" where
  "get_issue_url cfg r = url cfg @ ''/issues/'' @ str_int (issue_id r)"

text \<open>
  \<open>get_converted_hours\<close>: the standard output of \<open>task calc\<close>, stripped on the right.
  \<open>execute\<close> is \<open>TaskWarriorShellout()._execute\<close>, which returns the two output streams
  or raises.
\<close>

definition get_converted_hours ::
  "(string list \<Rightarrow> exn + string \<times> string) \<Rightarrow> string \<Rightarrow> exn + string" where
  "get_converted_hours execute hours =
     (case execute [''calc'', hours] of Inl e \<Rightarrow> Inl e | Inr calc \<Rightarrow> Inr (rstrip (fst calc)))"

text \<open>
  The character class \<open>[a-zA-Z0-9]\<close> of \<open>get_project_name\<close>, and \<open>str.lower\<close> on the
  characters that are left once every other character is removed.
\<close>

definition alnum :: "char \<Rightarrow> bool" where
  "alnum c \<longleftrightarrow> c \<in> set ''abcdefghijklmnopqrstuvwxyz''
              \<or> c \<in> set ''ABCDEFGHIJKLMNOPQRSTUVWXYZ''
              \<or> c \<in> set ''0123456789''"

definition lower_char :: "char \<Rightarrow> char" where
  "lower_char c =
     (case map_of (zip ''ABCDEFGHIJKLMNOPQRSTUVWXYZ'' ''abcdefghijklmnopqrstuvwxyz'') c of
        None \<Rightarrow> c
      | Some l \<Rightarrow> l)"

definition lower :: "string \<Rightarrow> string" where
  "lower s = map lower_char s"

definition get_project_name :: "redmine_config \<Rightarrow> redmine_issue \<Rightarrow> string" where
  "get_project_name cfg r =
     (if project_name cfg \<noteq> [] then project_name cfg
      else lower (filter alnum (issue_project_name r)))"

text \<open>
  The conversions at the head of \<open>to_taskwarrior\<close>. \<open>parse_date\<close> is
  \<open>self.parse_date(s).replace(microsecond=0)\<close> and \<open>str_float\<close> is \<open>str\<close> on a float; a
  float is true when it is not zero.
\<close>

definition convert_date ::
  "(string \<Rightarrow> exn + 'd) \<Rightarrow> string option \<Rightarrow> exn + (string, 'd) coerced" where
  "convert_date parse_date v =
     (case v of
        None \<Rightarrow> Inr Null
      | Some s \<Rightarrow>
          (if s \<noteq> [] then (case parse_date s of Inl e \<Rightarrow> Inl e | Inr d \<Rightarrow> Inr (Conv d))
           else Inr (Raw s)))"

definition convert_hours ::
  "(real \<Rightarrow> string) \<Rightarrow> (string list \<Rightarrow> exn + string \<times> string) \<Rightarrow> real option
     \<Rightarrow> exn + (real, string) coerced" where
  "convert_hours str_float execute v =
     (case v of
        None \<Rightarrow> Inr Null
      | Some x \<Rightarrow>
          (if x \<noteq> 0 \<or> x = 0.0 then
             (case get_converted_hours execute (str_float x @ '' hours'') of
                Inl e \<Rightarrow> Inl e
              | Inr converted \<Rightarrow> Inr (Conv converted))
           else Inr (Raw x)))"

definition bind_exn :: "exn + 'a \<Rightarrow> ('a \<Rightarrow> exn + 'b) \<Rightarrow> exn + 'b" where
  "bind_exn m f = (case m of Inl e \<Rightarrow> Inl e | Inr x \<Rightarrow> f x)"

text \<open>\<open>RedMineIssue.to_taskwarrior\<close>; the issue has no extra data, so no annotations.\<close>

definition redmine_to_taskwarrior ::
  "(string \<Rightarrow> exn + 'd) \<Rightarrow> (real \<Rightarrow> string) \<Rightarrow> (string list \<Rightarrow> exn + string \<times> string)
     \<Rightarrow> redmine_config \<Rightarrow> redmine_issue \<Rightarrow> exn + 'd redmine_taskwarrior" where
  "redmine_to_taskwarrior parse_date str_float execute cfg r =
     bind_exn (convert_date parse_date (due_date r)) (\<lambda>due.
     bind_exn (convert_date parse_date (start_date r)) (\<lambda>start.
     bind_exn (convert_date parse_date (updated_on r)) (\<lambda>updated.
     bind_exn (convert_date parse_date (created_on r)) (\<lambda>created.
     bind_exn (convert_hours str_float execute (spent_hours r)) (\<lambda>spent.
     bind_exn (convert_hours str_float execute (estimated_hours r)) (\<lambda>estimated.
       Inr \<lparr> redmine_project = get_project_name cfg r,
             redmine_annotations = [],
             redmine_priority = get_priority cfg r,
             redmineurl = get_issue_url cfg r,
             redminesubject = issue_subject r,
             redmineid = issue_id r,
             redminedescription = (case description r of None \<Rightarrow> [] | Some d \<Rightarrow> d),
             redminetracker = tracker_name r,
             redminestatus = status_name r,
             redmineauthor = author_name r,
             redmineprojectname = issue_project_name r,
             redmineassignedto = assigned_to r,
             redminecategory = category r,
             redminestartdate = start,
             redminecreatedon = created,
             redmineupdatedon = updated,
             redmineduedate = due,
             redmineestimatedhours = estimated,
             redminespenthours = spent \<rparr>))))))"

section \<open>Example inputs\<close>









section \<open>Properties of the Gerrit connector\<close>

lemmas string_ops = lstrip_chars_def strip_def lstrip_def rstrip_def isspace_def
  replace_char_def str_int_def str_nat.simps digit_char_def

text \<open>
  Claim C2. The annotation text is meant to be the message without a leading literal
  \<open>"Patch Set "\<close> and a leading literal revision number with its colon, and a message that
  does not begin with these literals is meant to keep its leading characters. The code
  strips with \<open>lstrip\<close>, which removes leading characters of a set: Gerrit's message
  \<open>"Set Ready For Review"\<close> does not begin with \<open>"Patch Set "\<close>, and loses its first word.
\<close>

theorem gerrit_message_strips_character_set:
  "take 10 ''Set Ready For Review'' \<noteq> ''Patch Set '' \<and>
   message_of \<lparr> author = [''name'' \<mapsto> PStr ''Al''], message = ''Set Ready For Review'',
                revision_number = 1 \<rparr> = ''Ready For Review''"
  by (simp add: message_of_def string_ops)

text \<open>
  Claim C7. The author of an annotation is the value of \<open>name\<close> if the author object has
  that key, else of \<open>username\<close>, else of \<open>email\<close>, else the account id; for an author
  object that holds only an account id it is that id, and the annotation entry carries it.
\<close>

theorem gerrit_author_fallback_order:
  "username_of item =
     (case author item ''name'' of
        Some v \<Rightarrow> Inr v
      | None \<Rightarrow>
          (case author item ''username'' of
             Some v \<Rightarrow> Inr v
           | None \<Rightarrow>
               (case author item ''email'' of
                  Some v \<Rightarrow> Inr v
                | None \<Rightarrow>
                    (case author item ''_account_id'' of
                       Some v \<Rightarrow> Inr v
                     | None \<Rightarrow> Inl (KeyError ''_account_id'')))))
   \<and> username_of (item \<lparr> author := [''_account_id'' \<mapsto> PInt n] \<rparr>) = Inr (PInt n)
   \<and> entries_of [item \<lparr> author := [''_account_id'' \<mapsto> PInt n] \<rparr>]
       = Inr [(PInt n, message_of (item \<lparr> author := [''_account_id'' \<mapsto> PInt n] \<rparr>))]"
  by (simp add: username_of_def split: option.splits)

theorem gerrit_author_fallback_order_witness:
  "username_of \<lparr> author = [''email'' \<mapsto> PStr ''al@example.org'', ''username'' \<mapsto> PStr ''al'',
                            ''_account_id'' \<mapsto> PInt 1000],
                 message = ''Patch Set 1: Code-Review+1'', revision_number = 1 \<rparr>
     = Inr (PStr ''al'')
   \<and> username_of \<lparr> author = [''_account_id'' \<mapsto> PInt 1000],
                   message = ''Patch Set 1: Code-Review+1'', revision_number = 1 \<rparr>
     = Inr (PInt 1000)"
  using gerrit_author_fallback_order
          [of "\<lparr> author = [''email'' \<mapsto> PStr ''al@example.org'', ''username'' \<mapsto> PStr ''al'',
                            ''_account_id'' \<mapsto> PInt 1000],
                 message = ''Patch Set 1: Code-Review+1'', revision_number = 1 \<rparr>" 1000]
  by simp

text \<open>
  Claim C9. A change without the key \<open>topic\<close> gets the topic \<open>"notopic"\<close>, a change without
  the key \<open>status\<close> gets the empty status, and the work-in-progress flag becomes 0 or 1; a
  present topic or status is passed on. The change numbered 7 with subject \<open>"S"\<close>, branch
  \<open>"main"\<close>, the flag set and neither topic nor status yields \<open>"notopic"\<close>, \<open>""\<close> and 1.
\<close>

theorem gerrit_defaults:
  "gerrittopic (gerrit_to_taskwarrior cfg (c \<lparr> topic := None \<rparr>) extra) = ''notopic''
   \<and> gerrittopic (gerrit_to_taskwarrior cfg (c \<lparr> topic := Some t \<rparr>) extra) = t
   \<and> gerritstatus (gerrit_to_taskwarrior cfg (c \<lparr> status := None \<rparr>) extra) = []
   \<and> gerritstatus (gerrit_to_taskwarrior cfg (c \<lparr> status := Some s \<rparr>) extra) = s
   \<and> gerritwip (gerrit_to_taskwarrior cfg (c \<lparr> work_in_progress := None \<rparr>) extra) = 0
   \<and> gerritwip (gerrit_to_taskwarrior cfg (c \<lparr> work_in_progress := Some False \<rparr>) extra) = 0
   \<and> gerritwip (gerrit_to_taskwarrior cfg (c \<lparr> work_in_progress := Some True \<rparr>) extra) = 1
   \<and> gerritwip (gerrit_to_taskwarrior cfg c extra) \<in> {0, 1}
   \<and> (let tw = gerrit_to_taskwarrior cfg
                  (c \<lparr> change_number := 7, subject := ''S'', branch := ''main'', topic := None,
                       status := None, work_in_progress := Some True \<rparr>) extra
      in gerrittopic tw = ''notopic'' \<and> gerritstatus tw = [] \<and> gerritwip tw = 1
         \<and> gerritid tw = 7 \<and> gerritsummary tw = ''S'' \<and> gerritbranch tw = ''main'')"
  by (simp add: gerrit_to_taskwarrior_def split: option.splits)

theorem gerrit_defaults_witness:
  "(let tw = gerrit_to_taskwarrior
               \<lparr> default_priority = ''M'', only_if_assigned = False, target = ''gerrit'',
                 base_uri = ''https://review.example.org'', query = ''is:open+is:reviewer'' \<rparr>
               \<lparr> change_project = ''tools'', change_number = 7, subject = ''S'',
                 branch = ''main'', topic = None, status = None,
                 work_in_progress = Some True, messages = [] \<rparr>
               \<lparr> extra_url = ''https://review.example.org/#/c/7/'',
                 extra_annotations = ([] :: string list) \<rparr>
    in gerrittopic tw = ''notopic'' \<and> gerritstatus tw = [] \<and> gerritwip tw = 1)"
  using gerrit_defaults
          [of "\<lparr> default_priority = ''M'', only_if_assigned = False, target = ''gerrit'',
                 base_uri = ''https://review.example.org'', query = ''is:open+is:reviewer'' \<rparr>"
              "\<lparr> change_project = ''tools'', change_number = 7, subject = ''S'',
                 branch = ''main'', topic = None, status = None,
                 work_in_progress = Some True, messages = [] \<rparr>"
              "\<lparr> extra_url = ''https://review.example.org/#/c/7/'',
                 extra_annotations = ([] :: string list) \<rparr>"]
  by (simp add: Let_def)

text \<open>
  Claim C10. Whatever the change holds, the priority of its normalized record is the
  configured default priority and its tags are the empty list.
\<close>

theorem gerrit_priority_tags_constant:
  "gerrit_priority (gerrit_to_taskwarrior cfg c extra) = default_priority cfg
   \<and> gerrit_tags (gerrit_to_taskwarrior cfg c extra) = []"
  by (simp add: gerrit_to_taskwarrior_def)

theorem gerrit_priority_tags_constant_witness:
  "(let tw = gerrit_to_taskwarrior
               \<lparr> default_priority = ''L'', only_if_assigned = False, target = ''gerrit'',
                 base_uri = ''https://review.example.org'', query = ''is:open'' \<rparr>
               \<lparr> change_project = ''kernel'', change_number = 12, subject = ''Urgent fix'',
                 branch = ''stable'', topic = Some ''security'', status = Some ''NEW'',
                 work_in_progress = None, messages = [] \<rparr>
               \<lparr> extra_url = ''https://review.example.org/#/c/12/'',
                 extra_annotations = ([] :: string list) \<rparr>
    in gerrit_priority tw = ''L'' \<and> gerrit_tags tw = [])"
  using gerrit_priority_tags_constant
          [of "\<lparr> default_priority = ''L'', only_if_assigned = False, target = ''gerrit'',
                 base_uri = ''https://review.example.org'', query = ''is:open'' \<rparr>"
              "\<lparr> change_project = ''kernel'', change_number = 12, subject = ''Urgent fix'',
                 branch = ''stable'', topic = Some ''security'', status = Some ''NEW'',
                 work_in_progress = None, messages = [] \<rparr>"
              "\<lparr> extra_url = ''https://review.example.org/#/c/12/'',
                 extra_annotations = ([] :: string list) \<rparr>"]
  by (simp add: Let_def)

section \<open>Properties of the priority tables\<close>

lemma phab_map_get_Some:
  "phab_map_get (Some k) =
     (if k = ''Unbreak Now!'' \<or> k = ''High'' then Some ''H''
      else if k = ''Normal'' then Some ''M''
      else if k = ''Low'' \<or> k = ''Wishlist'' then Some ''L''
      else None)"
  by (simp add: phab_map_get_def PHAB_PRIORITY_MAP_def)

lemma phab_priority_key:
  "phab_priority cfg (Task (t \<lparr> task_priority := Some k \<rparr>)) =
     (if k = ''Unbreak Now!'' \<or> k = ''High'' then ''H''
      else if k = ''Normal'' then ''M''
      else if k = ''Low'' \<or> k = ''Wishlist'' then ''L''
      else default_priority cfg)"
  by (simp add: phab_priority_def record_get_priority_def phab_map_get_Some py_or_def)

lemma phab_priority_absent:
  "phab_priority cfg (Task (t \<lparr> task_priority := None \<rparr>)) = default_priority cfg"
  by (simp add: phab_priority_def record_get_priority_def phab_map_get_def py_or_def)

lemma phab_priority_diff_absent:
  "phab_priority cfg (Diff (d \<lparr> diff_priority := None \<rparr>)) = default_priority cfg"
  by (simp add: phab_priority_def record_get_priority_def phab_map_get_def py_or_def)

lemma redmine_priority_key:
  "get_priority rcfg (r \<lparr> issue_priority := Some \<lparr> priority_name = Some n \<rparr> \<rparr>) =
     (if n = ''Low'' then ''L''
      else if n = ''Normal'' then ''M''
      else if n = ''High'' \<or> n = ''Urgent'' \<or> n = ''Immediate'' then ''H''
      else default_priority rcfg)"
  by (simp add: get_priority_def REDMINE_PRIORITY_MAP_def)

lemma redmine_priority_absent:
  "get_priority rcfg (r \<lparr> issue_priority := Some \<lparr> priority_name = None \<rparr> \<rparr>)
     = default_priority rcfg"
  "get_priority rcfg (r \<lparr> issue_priority := None \<rparr>) = default_priority rcfg"
  by (simp_all add: get_priority_def)

text \<open>
  Claim C5. Both priority mappings are total. For Phabricator \<open>Unbreak Now!\<close> and \<open>High\<close>
  give \<open>H\<close>, \<open>Normal\<close> gives \<open>M\<close>, \<open>Low\<close> and \<open>Wishlist\<close> give \<open>L\<close>, and \<open>Needs Triage\<close>,
  every other priority and a missing priority give the configured default. For Redmine
  \<open>Low\<close> gives \<open>L\<close>, \<open>Normal\<close> gives \<open>M\<close>, \<open>High\<close>, \<open>Urgent\<close> and \<open>Immediate\<close> give \<open>H\<close>,
  and every other name, a missing name and a missing priority give the configured default.
\<close>

theorem priority_maps_total:
  "phab_priority cfg (Task (t \<lparr> task_priority := Some k \<rparr>)) =
     (if k = ''Unbreak Now!'' \<or> k = ''High'' then ''H''
      else if k = ''Normal'' then ''M''
      else if k = ''Low'' \<or> k = ''Wishlist'' then ''L''
      else default_priority cfg)
   \<and> phab_priority cfg (Task (t \<lparr> task_priority := Some ''Needs Triage'' \<rparr>))
       = default_priority cfg
   \<and> phab_priority cfg (Task (t \<lparr> task_priority := None \<rparr>)) = default_priority cfg
   \<and> phab_priority cfg (Diff (d \<lparr> diff_priority := None \<rparr>)) = default_priority cfg
   \<and> get_priority rcfg (r \<lparr> issue_priority := Some \<lparr> priority_name = Some n \<rparr> \<rparr>) =
     (if n = ''Low'' then ''L''
      else if n = ''Normal'' then ''M''
      else if n = ''High'' \<or> n = ''Urgent'' \<or> n = ''Immediate'' then ''H''
      else default_priority rcfg)
   \<and> get_priority rcfg (r \<lparr> issue_priority := Some \<lparr> priority_name = None \<rparr> \<rparr>)
       = default_priority rcfg
   \<and> get_priority rcfg (r \<lparr> issue_priority := None \<rparr>) = default_priority rcfg"
proof -
  have "phab_priority cfg (Task (t \<lparr> task_priority := Some ''Needs Triage'' \<rparr>))
          = default_priority cfg"
    by (simp add: phab_priority_key)
  then show ?thesis
    using phab_priority_key [where cfg = cfg and t = t and k = k]
      phab_priority_absent [where cfg = cfg and t = t]
      phab_priority_diff_absent [where cfg = cfg and d = d]
      redmine_priority_key [where rcfg = rcfg and r = r and n = n]
      redmine_priority_absent [where rcfg = rcfg and r = r]
    by blast
qed

theorem priority_maps_total_witness:
  "phab_priority
     \<lparr> default_priority = ''M'', only_if_assigned = False, target = ''phab'',
       user_phids = [], project_phids = [], host = None, config_ignore_cc = None,
       config_ignore_author = None, ignore_owner = False, ignore_reviewers = False \<rparr>
     (Task \<lparr> task_uri = ''https://phab.example.org/T1'', task_title = ''Crash'',
             task_priority = Some ''Wishlist'', ccPHIDs = [], ownerPHID = None,
             task_authorPHID = ''PHID-USER-a'', projectPHIDs = [] \<rparr>) = ''L''
   \<and> get_priority
       \<lparr> default_priority = ''M'', only_if_assigned = False, target = ''redmine'',
         project_name = '''', url = ''https://redmine.example.org'' \<rparr>
       \<lparr> issue_id = 42, issue_subject = ''Fix'', description = None, tracker_name = ''Bug'',
         status_name = ''Open'', author_name = ''Al'', issue_project_name = ''My Proj!'',
         issue_priority = Some \<lparr> priority_name = Some ''Urgent'' \<rparr>, due_date = None,
         start_date = None, updated_on = None, created_on = None, spent_hours = None,
         estimated_hours = None, category = None, assigned_to = None \<rparr> = ''H''"
  using priority_maps_total
          [where cfg = "\<lparr> default_priority = ''M'', only_if_assigned = False, target = ''phab'',
       user_phids = [], project_phids = [], host = None, config_ignore_cc = None,
       config_ignore_author = None, ignore_owner = False, ignore_reviewers = False \<rparr>"
             and t = "\<lparr> task_uri = ''https://phab.example.org/T1'', task_title = ''Crash'',
             task_priority = None, ccPHIDs = [], ownerPHID = None,
             task_authorPHID = ''PHID-USER-a'', projectPHIDs = [] \<rparr>"
             and k = "''Wishlist''"
             and rcfg = "\<lparr> default_priority = ''M'', only_if_assigned = False, target = ''redmine'',
         project_name = '''', url = ''https://redmine.example.org'' \<rparr>"
             and r = "\<lparr> issue_id = 42, issue_subject = ''Fix'', description = None, tracker_name = ''Bug'',
         status_name = ''Open'', author_name = ''Al'', issue_project_name = ''My Proj!'',
         issue_priority = None, due_date = None,
         start_date = None, updated_on = None, created_on = None, spent_hours = None,
         estimated_hours = None, category = None, assigned_to = None \<rparr>"
             and n = "''Urgent''"]
  by simp

section \<open>Properties of the Redmine connector\<close>

lemma lower_char_alnum:
  "alnum c \<Longrightarrow> lower_char c \<in> set ''abcdefghijklmnopqrstuvwxyz0123456789''"
  unfolding alnum_def lower_char_def by (elim disjE) (simp_all, (elim disjE; simp)+)

lemma get_project_name_chars:
  "project_name cfg = [] \<Longrightarrow> c \<in> set (get_project_name cfg r) \<Longrightarrow>
     c \<in> set ''abcdefghijklmnopqrstuvwxyz0123456789''"
  using lower_char_alnum by (auto simp: get_project_name_def lower_def simp del: set_simps)

lemma redmine_to_taskwarrior_fields:
  "redmine_to_taskwarrior parse_date str_float execute cfg r = Inr tw \<Longrightarrow>
     redmine_project tw = get_project_name cfg r \<and> redmine_priority tw = get_priority cfg r
     \<and> redmineid tw = issue_id r"
  by (auto simp: redmine_to_taskwarrior_def bind_exn_def split: sum.splits)

lemma redmine_to_taskwarrior_hours:
  "redmine_to_taskwarrior parse_date str_float execute cfg r = Inr tw \<Longrightarrow>
     convert_hours str_float execute (estimated_hours r) = Inr (redmineestimatedhours tw)
     \<and> convert_hours str_float execute (spent_hours r) = Inr (redminespenthours tw)"
  by (auto simp: redmine_to_taskwarrior_def bind_exn_def split: sum.splits)

lemma redmine_to_taskwarrior_returns:
  assumes "\<forall>s. \<exists>d. parse_date s = Inr d" and "\<forall>args. \<exists>calc. execute args = Inr calc"
  shows "\<exists>tw. redmine_to_taskwarrior parse_date str_float execute cfg r = Inr tw"
proof -
  have d: "\<exists>c. convert_date parse_date v = Inr c" for v
  proof (cases v)
    case None
    then show ?thesis by (simp add: convert_date_def)
  next
    case (Some s)
    obtain x where "parse_date s = Inr x" using assms(1) by blast
    with Some show ?thesis by (simp add: convert_date_def)
  qed
  have h: "\<exists>c. convert_hours str_float execute v = Inr c" for v
  proof (cases v)
    case None
    then show ?thesis by (simp add: convert_hours_def)
  next
    case (Some x)
    obtain calc where "execute [''calc'', str_float x @ '' hours''] = Inr calc"
      using assms(2) by blast
    with Some show ?thesis by (simp add: convert_hours_def get_converted_hours_def)
  qed
  obtain c1 c2 c3 c4 c5 c6 where
    "convert_date parse_date (due_date r) = Inr c1"
    "convert_date parse_date (start_date r) = Inr c2"
    "convert_date parse_date (updated_on r) = Inr c3"
    "convert_date parse_date (created_on r) = Inr c4"
    "convert_hours str_float execute (spent_hours r) = Inr c5"
    "convert_hours str_float execute (estimated_hours r) = Inr c6"
    using d h by meson
  then show ?thesis
    by (simp add: redmine_to_taskwarrior_def bind_exn_def)
qed

lemma convert_hours_zero:
  "str_float 0 = ''0.0'' \<Longrightarrow>
   convert_hours str_float execute (Some 0) =
     (case execute [''calc'', ''0.0 hours''] of
        Inl e \<Rightarrow> Inl e
      | Inr calc \<Rightarrow> Inr (Conv (rstrip (fst calc))))"
  by (simp add: convert_hours_def get_converted_hours_def split: sum.splits)

lemma convert_hours_absent:
  "convert_hours str_float execute None = Inr Null"
  by (simp add: convert_hours_def)

lemma get_project_name_scenario:
  assumes "project_name cfg = []" and "issue_project_name r = ''My Proj!''"
  shows "get_project_name cfg r = ''myproj''"
proof -
  have "lower (filter alnum ''My Proj!'') = ''myproj''"
    by (simp add: lower_def alnum_def lower_char_def)
  with assms show ?thesis
    by (simp only: get_project_name_def if_False simp_thms)
qed

text \<open>
  Claim C8. Without a configured project name, the project of a normalized Redmine record is
  the remote project name without the characters outside \<open>[a-zA-Z0-9]\<close>, in lower case.
  The issue 42 of project \<open>"My Proj!"\<close> with priority \<open>"High"\<close> is normalized to the
  project \<open>"myproj"\<close>, the priority \<open>"H"\<close> and the id 42.
\<close>

theorem redmine_project_key:
  "(project_name cfg = [] \<longrightarrow>
      get_project_name cfg r = lower (filter alnum (issue_project_name r))
      \<and> set (get_project_name cfg r) \<subseteq> set ''abcdefghijklmnopqrstuvwxyz0123456789''
      \<and> (\<forall>tw. redmine_to_taskwarrior parse_date str_float execute cfg r = Inr tw
            \<longrightarrow> redmine_project tw = lower (filter alnum (issue_project_name r))))
   \<and> (let cfg0 = cfg \<lparr> project_name := [] \<rparr>;
           r0 = r \<lparr> issue_id := 42, issue_subject := ''Fix'', tracker_name := ''Bug'',
                  status_name := ''Open'', author_name := ''Al'',
                  issue_project_name := ''My Proj!'',
                  issue_priority := Some \<lparr> priority_name = Some ''High'' \<rparr>,
                  due_date := None, start_date := None, updated_on := None, created_on := None,
                  spent_hours := None, estimated_hours := None \<rparr>
       in \<exists>tw. redmine_to_taskwarrior parse_date str_float execute cfg0 r0 = Inr tw
              \<and> redmine_project tw = ''myproj'' \<and> redmine_priority tw = ''H''
              \<and> redmineid tw = 42)"
proof (intro conjI impI allI)
  assume e: "project_name cfg = []"
  then show "get_project_name cfg r = lower (filter alnum (issue_project_name r))"
    by (simp add: get_project_name_def)
  show "set (get_project_name cfg r) \<subseteq> set ''abcdefghijklmnopqrstuvwxyz0123456789''"
    using get_project_name_chars [OF e] by blast
  fix tw
  assume "redmine_to_taskwarrior parse_date str_float execute cfg r = Inr tw"
  then show "redmine_project tw = lower (filter alnum (issue_project_name r))"
    using e by (simp add: redmine_to_taskwarrior_fields get_project_name_def)
next
  have n: "lower (filter alnum ''My Proj!'') = ''myproj''"
    by (simp add: lower_def alnum_def lower_char_def)
  show "let cfg0 = cfg \<lparr> project_name := [] \<rparr>;
           r0 = r \<lparr> issue_id := 42, issue_subject := ''Fix'', tracker_name := ''Bug'',
                  status_name := ''Open'', author_name := ''Al'',
                  issue_project_name := ''My Proj!'',
                  issue_priority := Some \<lparr> priority_name = Some ''High'' \<rparr>,
                  due_date := None, start_date := None, updated_on := None, created_on := None,
                  spent_hours := None, estimated_hours := None \<rparr>
       in \<exists>tw. redmine_to_taskwarrior parse_date str_float execute cfg0 r0 = Inr tw
              \<and> redmine_project tw = ''myproj'' \<and> redmine_priority tw = ''H''
              \<and> redmineid tw = 42"
    by (simp add: Let_def redmine_to_taskwarrior_def bind_exn_def convert_date_def
          convert_hours_def get_project_name_scenario get_priority_def REDMINE_PRIORITY_MAP_def)
qed


theorem redmine_project_key_witness:
  "get_project_name
     \<lparr> default_priority = ''M'', only_if_assigned = False, target = ''redmine'',
       project_name = [], url = ''https://redmine.example.org'' \<rparr>
     \<lparr> issue_id = 7, issue_subject = ''Docs'', description = None, tracker_name = ''Task'',
       status_name = ''New'', author_name = ''Bo'', issue_project_name = ''Web-Site 2.0'',
       issue_priority = None, due_date = None, start_date = None, updated_on = None,
       created_on = None, spent_hours = None, estimated_hours = None, category = None,
       assigned_to = None \<rparr> = ''website20''"
proof -
  let ?cfg = "\<lparr> default_priority = ''M'', only_if_assigned = False, target = ''redmine'',
       project_name = [], url = ''https://redmine.example.org'' \<rparr>"
  let ?r = "\<lparr> issue_id = 7, issue_subject = ''Docs'', description = None, tracker_name = ''Task'',
       status_name = ''New'', author_name = ''Bo'', issue_project_name = ''Web-Site 2.0'',
       issue_priority = None, due_date = None, start_date = None, updated_on = None,
       created_on = None, spent_hours = None, estimated_hours = None, category = None,
       assigned_to = None \<rparr>"
  have "project_name ?cfg = []" by simp
  then have "get_project_name ?cfg ?r = lower (filter alnum (issue_project_name ?r))"
    using redmine_project_key [of ?cfg ?r] by blast
  then show ?thesis
    by (simp add: lower_def alnum_def lower_char_def)
qed

text \<open>
  Claim C6. Given that \<open>str(0.0)\<close> is \<open>"0.0"\<close>: in a normalized Redmine record, estimated
  hours of exactly 0.0 become the stripped output of the duration tool on \<open>"0.0 hours"\<close>
  and not a null value, and so do spent hours of 0.0; missing hours become null. A record
  is produced whenever the date parser and the tool do not raise.
\<close>

theorem redmine_zero_hours_converted:
  assumes zero: "str_float 0 = ''0.0''"
  shows
    "(\<forall>tw. redmine_to_taskwarrior parse_date str_float execute cfg r = Inr tw \<longrightarrow>
        (estimated_hours r = Some 0 \<longrightarrow>
           (\<exists>out err. execute [''calc'', ''0.0 hours''] = Inr (out, err)
                      \<and> redmineestimatedhours tw = Conv (rstrip out)))
        \<and> (spent_hours r = Some 0 \<longrightarrow>
           (\<exists>out err. execute [''calc'', ''0.0 hours''] = Inr (out, err)
                      \<and> redminespenthours tw = Conv (rstrip out)))
        \<and> (estimated_hours r = None \<longrightarrow> redmineestimatedhours tw = Null)
        \<and> (spent_hours r = None \<longrightarrow> redminespenthours tw = Null))
     \<and> ((\<forall>s. \<exists>d. parse_date s = Inr d) \<and> (\<forall>args. \<exists>calc. execute args = Inr calc) \<longrightarrow>
          (\<exists>tw. redmine_to_taskwarrior parse_date str_float execute cfg r = Inr tw))"
proof (intro conjI allI impI)
  fix tw
  assume tw: "redmine_to_taskwarrior parse_date str_float execute cfg r = Inr tw"
  note hours = redmine_to_taskwarrior_hours [OF tw]
  {
    assume "estimated_hours r = Some 0"
    with hours have "convert_hours str_float execute (Some 0) = Inr (redmineestimatedhours tw)"
      by simp
    then show "\<exists>out err. execute [''calc'', ''0.0 hours''] = Inr (out, err)
                      \<and> redmineestimatedhours tw = Conv (rstrip out)"
      unfolding convert_hours_zero [where str_float = str_float, OF zero] by (auto split: sum.splits)
  }
  {
    assume "spent_hours r = Some 0"
    with hours have "convert_hours str_float execute (Some 0) = Inr (redminespenthours tw)"
      by simp
    then show "\<exists>out err. execute [''calc'', ''0.0 hours''] = Inr (out, err)
                      \<and> redminespenthours tw = Conv (rstrip out)"
      unfolding convert_hours_zero [where str_float = str_float, OF zero] by (auto split: sum.splits)
  }
  {
    assume "estimated_hours r = None"
    with hours show "redmineestimatedhours tw = Null"
      by (simp add: convert_hours_absent)
  }
  {
    assume "spent_hours r = None"
    with hours show "redminespenthours tw = Null"
      by (simp add: convert_hours_absent)
  }
next
  assume "(\<forall>s. \<exists>d. parse_date s = Inr d) \<and> (\<forall>args. \<exists>calc. execute args = Inr calc)"
  then show "\<exists>tw. redmine_to_taskwarrior parse_date str_float execute cfg r = Inr tw"
    using redmine_to_taskwarrior_returns by blast
qed

theorem redmine_zero_hours_converted_witness:
  "\<exists>tw. redmine_to_taskwarrior (\<lambda>s. Inr s) (\<lambda>x. if x = 0 then ''0.0'' else ''1.5'')
          (\<lambda>args. Inr (''PT0S'' @ [CHR 0x0A], []))
          \<lparr> default_priority = ''M'', only_if_assigned = False, target = ''redmine'',
            project_name = [], url = ''https://redmine.example.org'' \<rparr>
          \<lparr> issue_id = 7, issue_subject = ''Docs'', description = None, tracker_name = ''Task'',
            status_name = ''New'', author_name = ''Bo'', issue_project_name = ''Web-Site 2.0'',
            issue_priority = None, due_date = None, start_date = None, updated_on = None,
            created_on = None, spent_hours = None, estimated_hours = Some 0, category = None,
            assigned_to = None \<rparr> = Inr tw
        \<and> redmineestimatedhours tw = Conv ''PT0S'' \<and> redminespenthours tw = Null"
proof -
  let ?pd = "\<lambda>s :: string. (Inr s :: exn + string)"
  let ?sf = "\<lambda>x :: real. if x = 0 then ''0.0'' else ''1.5''"
  let ?ex = "\<lambda>args :: string list. (Inr (''PT0S'' @ [CHR 0x0A], []) :: exn + string \<times> string)"
  let ?cfg = "\<lparr> default_priority = ''M'', only_if_assigned = False, target = ''redmine'',
            project_name = [], url = ''https://redmine.example.org'' \<rparr>"
  let ?r = "\<lparr> issue_id = 7, issue_subject = ''Docs'', description = None, tracker_name = ''Task'',
            status_name = ''New'', author_name = ''Bo'', issue_project_name = ''Web-Site 2.0'',
            issue_priority = None, due_date = None, start_date = None, updated_on = None,
            created_on = None, spent_hours = None, estimated_hours = Some 0, category = None,
            assigned_to = None \<rparr>"
  have zero: "?sf 0 = ''0.0''" by simp
  note t = redmine_zero_hours_converted [where str_float = ?sf and parse_date = ?pd
      and execute = ?ex and cfg = ?cfg and r = ?r, OF zero]
  have "(\<forall>s. \<exists>d. ?pd s = Inr d) \<and> (\<forall>args. \<exists>calc. ?ex args = Inr calc)" by simp
  with t obtain tw where tw: "redmine_to_taskwarrior ?pd ?sf ?ex ?cfg ?r = Inr tw" by blast
  have "estimated_hours ?r = Some 0" and "spent_hours ?r = None" by simp_all
  with t tw obtain out err where "?ex [''calc'', ''0.0 hours''] = Inr (out, err)"
    and "redmineestimatedhours tw = Conv (rstrip out)" and "redminespenthours tw = Null"
    by blast
  then have "redmineestimatedhours tw = Conv ''PT0S''" and "redminespenthours tw = Null"
    by (auto simp: rstrip_def isspace_def)
  with tw show ?thesis by blast
qed

section \<open>Properties of the Phabricator connector\<close>

lemma this_task_matches_iff:
  "this_task_matches cfg t \<longleftrightarrow>
     (user_phids cfg = [] \<and> project_phids cfg = [])
     \<or> task_relevant_to cfg t \<inter> Some ` set (user_phids cfg) \<noteq> {}
     \<or> Some ` set (projectPHIDs t) \<inter> Some ` set (project_phids cfg) \<noteq> {}"
  by (auto simp: this_task_matches_def Let_def)

lemma this_diff_matches_iff:
  "this_diff_matches cfg d \<longleftrightarrow>
     (user_phids cfg = [] \<and> project_phids cfg = [])
     \<or> diff_relevant_to cfg d \<inter> Some ` set (user_phids cfg) \<noteq> {}
     \<or> diff_projects d \<inter> Some ` set (project_phids cfg) \<noteq> {}"
  by (auto simp: this_diff_matches_def Let_def)

lemma tasks_loop_filter:
  "tasks_loop cfg items =
     map (\<lambda>item. (Task (snd item), \<lparr> extra_project = target cfg, extra_type = ''issue'' \<rparr>))
       (filter (\<lambda>item. this_task_matches cfg (snd item)) items)"
  by (induction cfg items rule: tasks_loop.induct) simp_all

lemma revisions_loop_filter:
  "revisions_loop cfg ds =
     map (\<lambda>d. (Diff d, \<lparr> extra_project = target cfg, extra_type = ''pull_request'' \<rparr>))
       (filter (this_diff_matches cfg) ds)"
  by (induction ds) simp_all

lemma ignore_flags_update_cc:
  "ignore_cc (cfg \<lparr> config_ignore_cc := Some b \<rparr>) = b"
  "ignore_author (cfg \<lparr> config_ignore_cc := x \<rparr>) = ignore_author cfg"
  by (simp_all add: ignore_cc_def ignore_author_def split: option.splits)

lemma task_relevant_to_ignore_cc:
  "task_relevant_to (cfg \<lparr> config_ignore_cc := Some True \<rparr>) t
     = task_relevant_to cfg (t \<lparr> ccPHIDs := [] \<rparr>)"
  by (simp add: task_relevant_to_def ignore_flags_update_cc)

lemma diff_relevant_to_ignore_cc:
  "diff_relevant_to (cfg \<lparr> config_ignore_cc := Some True \<rparr>) d
     = diff_relevant_to cfg (d \<lparr> ccs := [] \<rparr>)"
  by (simp add: diff_relevant_to_def ignore_flags_update_cc)

lemma this_task_matches_ignore_cc:
  "this_task_matches (cfg \<lparr> config_ignore_cc := Some True \<rparr>) t
     = this_task_matches cfg (t \<lparr> ccPHIDs := [] \<rparr>)"
  by (simp add: this_task_matches_iff task_relevant_to_ignore_cc)

lemma this_diff_matches_ignore_cc:
  "this_diff_matches (cfg \<lparr> config_ignore_cc := Some True \<rparr>) d
     = this_diff_matches cfg (d \<lparr> ccs := [] \<rparr>)"
  by (simp add: this_diff_matches_iff diff_relevant_to_ignore_cc diff_projects_def)


text \<open>
  Claim C1. A task or revision matches when neither \<open>user_phids\<close> nor \<open>project_phids\<close> is
  configured; otherwise it matches exactly when its relevance set (for a task: the cc list
  unless \<open>ignore_cc\<close>, the owner unless \<open>ignore_owner\<close>, the author unless
  \<open>ignore_author\<close>; for a revision: the reviewers unless \<open>ignore_reviewers\<close>, the cc list
  unless \<open>ignore_cc\<close>, the author unless \<open>ignore_author\<close>) meets \<open>user_phids\<close>, or its
  projects (for a revision: its project tags and its repository) meet \<open>project_phids\<close>.
  The generators yield exactly the fetched records that match, in order. With
  \<open>ignore_cc\<close> set, a record that would not match without its cc list does not match.
\<close>

theorem phab_membership_filter:
  "(this_task_matches cfg t \<longleftrightarrow>
      (user_phids cfg = [] \<and> project_phids cfg = [])
      \<or> ((if ignore_cc cfg then {} else Some ` set (ccPHIDs t))
           \<union> (if ignore_owner cfg then {} else {ownerPHID t})
           \<union> (if ignore_author cfg then {} else {Some (task_authorPHID t)}))
          \<inter> Some ` set (user_phids cfg) \<noteq> {}
      \<or> Some ` set (projectPHIDs t) \<inter> Some ` set (project_phids cfg) \<noteq> {})
   \<and> (this_diff_matches cfg d \<longleftrightarrow>
      (user_phids cfg = [] \<and> project_phids cfg = [])
      \<or> ((if ignore_reviewers cfg then {} else Some ` set (reviewers d))
           \<union> (if ignore_cc cfg then {} else Some ` set (ccs d))
           \<union> (if ignore_author cfg then {} else {Some (diff_authorPHID d)}))
          \<inter> Some ` set (user_phids cfg) \<noteq> {}
      \<or> (Some ` set (case phabricator_projects d of None \<Rightarrow> [] | Some ps \<Rightarrow> ps)
           \<union> {repositoryPHID d})
          \<inter> Some ` set (project_phids cfg) \<noteq> {})
   \<and> tasks_loop cfg items =
       map (\<lambda>item. (Task (snd item), \<lparr> extra_project = target cfg, extra_type = ''issue'' \<rparr>))
         (filter (\<lambda>item. this_task_matches cfg (snd item)) items)
   \<and> revisions_loop cfg ds =
       map (\<lambda>d. (Diff d, \<lparr> extra_project = target cfg, extra_type = ''pull_request'' \<rparr>))
         (filter (this_diff_matches cfg) ds)
   \<and> (fst (fetch_tasks query_api cfg) = Inr items \<longrightarrow>
        yielded (tasks query_api cfg) = tasks_loop cfg items
        \<and> raised (tasks query_api cfg) = None)
   \<and> (differential_query ''status-open'' = Inr ds \<longrightarrow>
        yielded (revisions differential_query cfg) = revisions_loop cfg ds
        \<and> raised (revisions differential_query cfg) = None)
   \<and> (\<not> this_task_matches cfg (t \<lparr> ccPHIDs := [] \<rparr>) \<longrightarrow>
        \<not> this_task_matches (cfg \<lparr> config_ignore_cc := Some True \<rparr>) t)
   \<and> (\<not> this_diff_matches cfg (d \<lparr> ccs := [] \<rparr>) \<longrightarrow>
        \<not> this_diff_matches (cfg \<lparr> config_ignore_cc := Some True \<rparr>) d)"
proof (intro conjI)
  show "this_task_matches cfg t \<longleftrightarrow>
      (user_phids cfg = [] \<and> project_phids cfg = [])
      \<or> ((if ignore_cc cfg then {} else Some ` set (ccPHIDs t))
           \<union> (if ignore_owner cfg then {} else {ownerPHID t})
           \<union> (if ignore_author cfg then {} else {Some (task_authorPHID t)}))
          \<inter> Some ` set (user_phids cfg) \<noteq> {}
      \<or> Some ` set (projectPHIDs t) \<inter> Some ` set (project_phids cfg) \<noteq> {}"
    unfolding this_task_matches_iff task_relevant_to_def by simp
  show "this_diff_matches cfg d \<longleftrightarrow>
      (user_phids cfg = [] \<and> project_phids cfg = [])
      \<or> ((if ignore_reviewers cfg then {} else Some ` set (reviewers d))
           \<union> (if ignore_cc cfg then {} else Some ` set (ccs d))
           \<union> (if ignore_author cfg then {} else {Some (diff_authorPHID d)}))
          \<inter> Some ` set (user_phids cfg) \<noteq> {}
      \<or> (Some ` set (case phabricator_projects d of None \<Rightarrow> [] | Some ps \<Rightarrow> ps)
           \<union> {repositoryPHID d})
          \<inter> Some ` set (project_phids cfg) \<noteq> {}"
    unfolding this_diff_matches_iff diff_relevant_to_def diff_projects_def
    by (simp add: Let_def Un_commute)
  show "tasks_loop cfg items =
       map (\<lambda>item. (Task (snd item), \<lparr> extra_project = target cfg, extra_type = ''issue'' \<rparr>))
         (filter (\<lambda>item. this_task_matches cfg (snd item)) items)"
    by (rule tasks_loop_filter)
  show "revisions_loop cfg ds =
       map (\<lambda>d. (Diff d, \<lparr> extra_project = target cfg, extra_type = ''pull_request'' \<rparr>))
         (filter (this_diff_matches cfg) ds)"
    by (rule revisions_loop_filter)
  show "fst (fetch_tasks query_api cfg) = Inr items \<longrightarrow>
        yielded (tasks query_api cfg) = tasks_loop cfg items
        \<and> raised (tasks query_api cfg) = None"
    by (simp add: tasks_def)
  show "differential_query ''status-open'' = Inr ds \<longrightarrow>
        yielded (revisions differential_query cfg) = revisions_loop cfg ds
        \<and> raised (revisions differential_query cfg) = None"
    by (simp add: revisions_def)
  show "\<not> this_task_matches cfg (t \<lparr> ccPHIDs := [] \<rparr>) \<longrightarrow>
        \<not> this_task_matches (cfg \<lparr> config_ignore_cc := Some True \<rparr>) t"
    by (simp add: this_task_matches_ignore_cc)
  show "\<not> this_diff_matches cfg (d \<lparr> ccs := [] \<rparr>) \<longrightarrow>
        \<not> this_diff_matches (cfg \<lparr> config_ignore_cc := Some True \<rparr>) d"
    by (simp add: this_diff_matches_ignore_cc)
qed

theorem phab_membership_filter_witness:
  "this_task_matches
     \<lparr> default_priority = ''M'', only_if_assigned = False, target = ''phab'',
       user_phids = [''PHID-USER-1''], project_phids = [], host = None,
       config_ignore_cc = None, config_ignore_author = None, ignore_owner = False,
       ignore_reviewers = False \<rparr>
     \<lparr> task_uri = ''https://phab.example.org/T1'', task_title = ''Crash'',
       task_priority = Some ''High'', ccPHIDs = [''PHID-USER-1''], ownerPHID = None,
       task_authorPHID = ''PHID-USER-2'', projectPHIDs = [] \<rparr>
   \<and> \<not> this_task_matches
     \<lparr> default_priority = ''M'', only_if_assigned = False, target = ''phab'',
       user_phids = [''PHID-USER-1''], project_phids = [], host = None,
       config_ignore_cc = Some True, config_ignore_author = None, ignore_owner = False,
       ignore_reviewers = False \<rparr>
     \<lparr> task_uri = ''https://phab.example.org/T1'', task_title = ''Crash'',
       task_priority = Some ''High'', ccPHIDs = [''PHID-USER-1''], ownerPHID = None,
       task_authorPHID = ''PHID-USER-2'', projectPHIDs = [] \<rparr>"
proof -
  let ?cfg = "\<lparr> default_priority = ''M'', only_if_assigned = False, target = ''phab'',
       user_phids = [''PHID-USER-1''], project_phids = [], host = None,
       config_ignore_cc = None, config_ignore_author = None, ignore_owner = False,
       ignore_reviewers = False \<rparr>"
  let ?t = "\<lparr> task_uri = ''https://phab.example.org/T1'', task_title = ''Crash'',
       task_priority = Some ''High'', ccPHIDs = [''PHID-USER-1''], ownerPHID = None,
       task_authorPHID = ''PHID-USER-2'', projectPHIDs = [] \<rparr>"
  have a: "this_task_matches ?cfg ?t"
    using phab_membership_filter [where cfg = ?cfg and t = ?t]
    by (simp add: ignore_cc_def ignore_author_def)
  have "\<not> this_task_matches ?cfg (?t \<lparr> ccPHIDs := [] \<rparr>)"
    using phab_membership_filter [where cfg = ?cfg and t = "?t \<lparr> ccPHIDs := [] \<rparr>"]
    by (simp add: ignore_cc_def ignore_author_def)
  then have "\<not> this_task_matches (?cfg \<lparr> config_ignore_cc := Some True \<rparr>) ?t"
    using phab_membership_filter [where cfg = ?cfg and t = ?t] by blast
  with a show ?thesis by simp
qed



lemma delete_duplicates_id:
  "distinct (map snd items) \<Longrightarrow> snd ` set items \<inter> seen = {} \<Longrightarrow>
     delete_duplicates seen items = items"
  by (induction seen items rule: delete_duplicates.induct) auto








section \<open>Remote failures\<close>










end
